theory Spec2Isabelle
  imports Main "HOL-Library.Word" "HOL-Library.Sublist"
begin

unbundle bit_operations_syntax

section \<open>Go values the engine works with\<close>

text \<open>
  A Go \<^verbatim>\<open>error\<close> is an interface value. The constructors below are the dynamic
  types an error can have in this program: a raw \<^verbatim>\<open>syscall.Errno\<close>, an error of
  the standard library identified by its text, the two error shapes of
  \<^verbatim>\<open>github.com/pkg/errors\<close> (\<^verbatim>\<open>New\<close>/\<^verbatim>\<open>Errorf\<close> and \<^verbatim>\<open>Wrap\<close>/\<^verbatim>\<open>Wrapf\<close>),
  \<^verbatim>\<open>*strconv.NumError\<close> and \<^verbatim>\<open>*os.PathError\<close>. The value \<^verbatim>\<open>nil\<close> is \<open>None\<close> of
  \<open>error option\<close>.
\<close>

datatype error =
    Errno "64 word"
  | ErrorString string
  | Fundamental string
  | WithStack error string
  | NumError string string error
  | PathError string string error

text \<open>\<^verbatim>\<open>syscall.EEXIST\<close> and \<^verbatim>\<open>syscall.RTN_BLACKHOLE\<close> on Linux.\<close>

definition EEXIST :: "64 word" where
  "EEXIST = 0x11"

definition RTN_BLACKHOLE :: int where
  "RTN_BLACKHOLE = 0x6"

text \<open>
  \<^verbatim>\<open>errors.New(message)\<close> and \<^verbatim>\<open>errors.Wrap(err, message)\<close> of pkg/errors.
  Every call of \<^verbatim>\<open>Wrap\<close> and \<^verbatim>\<open>Wrapf\<close> in the engine sits under \<^verbatim>\<open>err != nil\<close>, so
  the cause is an error, never nil.
\<close>

definition errors_New :: "string \<Rightarrow> error" where
  "errors_New message = Fundamental message"

definition errors_Wrap :: "error \<Rightarrow> string \<Rightarrow> error" where
  "errors_Wrap err message = WithStack err message"

type_synonym byte = "8 word"

text \<open>\<^verbatim>\<open>net.IP\<close> and \<^verbatim>\<open>net.HardwareAddr\<close> are byte slices; a nil \<^verbatim>\<open>net.IP\<close> is \<open>None\<close>.\<close>

type_synonym IP = "byte list"
type_synonym HardwareAddr = "byte list"

record IPNet =
  IP :: IP
  Mask :: "byte list"

text \<open>
  \<^verbatim>\<open>netlink.Addr\<close>, \<^verbatim>\<open>netlink.Route\<close> and the attributes of a \<^verbatim>\<open>netlink.Link\<close>, with
  the fields the engine reads or sets. A pointer that may be nil is an option.
\<close>

record Addr =
  AddrIPNet :: IPNet
  Label :: string

record Route =
  LinkIndex :: int
  Dst :: "IPNet option"
  Gw :: "IP option"
  Type :: int

record Link =
  Index :: int
  Name :: string
  HardwareAddr :: HardwareAddr

text \<open>The zero value \<^verbatim>\<open>netlink.Route{}\<close>; a composite literal sets fields of it.\<close>

definition Route_zero :: Route where
  "Route_zero = \<lparr>LinkIndex = 0, Dst = None, Gw = None, Type = 0\<rparr>"

subsection \<open>\<^verbatim>\<open>net.HardwareAddr.String\<close>\<close>

text \<open>
  The standard library prints a hardware address as two lower-case hex digits per byte,
  the bytes separated by colons, and the empty address as the empty string.
\<close>

definition hexDigit :: string where
  "hexDigit = ''0123456789abcdef''"

fun hexBytes :: "byte list \<Rightarrow> string" where
  "hexBytes [] = []"
| "hexBytes (b # bs) =
     CHR '':'' # hexDigit ! unat (drop_bit 4 b) # hexDigit ! unat (b AND 0xF) # hexBytes bs"

definition HardwareAddr_String :: "HardwareAddr \<Rightarrow> string" where
  "HardwareAddr_String a = (if length a = 0 then [] else tl (hexBytes a))"

section \<open>The collaborator interfaces\<close>

text \<open>
  \<^verbatim>\<open>netlinkwrapper.NetLink\<close> is an interface; its methods act on the kernel. A method is
  a function of its arguments and the state \<open>'w\<close> of the outside world, returning its Go
  results and the new state. A Go result pair \<^verbatim>\<open>(value, error)\<close> is a sum, \<open>Inl\<close> the
  error.
\<close>

record 'w NetLink =
  ParseAddr :: "string \<Rightarrow> 'w \<Rightarrow> (error + Addr) \<times> 'w"
  LinkByName :: "string \<Rightarrow> 'w \<Rightarrow> (error + Link) \<times> 'w"
  LinkSetName :: "Link \<Rightarrow> string \<Rightarrow> 'w \<Rightarrow> error option \<times> 'w"
  AddrAdd :: "Link \<Rightarrow> Addr option \<Rightarrow> 'w \<Rightarrow> error option \<times> 'w"
  LinkSetUp :: "Link \<Rightarrow> 'w \<Rightarrow> error option \<times> 'w"
  RouteAdd :: "Route \<Rightarrow> 'w \<Rightarrow> error option \<times> 'w"
  LinkList :: "'w \<Rightarrow> (error + Link list) \<times> 'w"

section \<open>The static-address engine (plugins/eni/engine/nsclosure.go)\<close>

definition instanceMetadataEndpoint :: string where
  "instanceMetadataEndpoint = ''169.254.169.254/32''"

definition linkWithMACNotFoundError :: error where
  "linkWithMACNotFoundError = errors_New ''engine: device with mac address not found''"

record 'w setupNamespaceClosureContext =
  netLink :: "'w NetLink"
  ifName :: string
  deviceName :: string
  macAddress :: string
  ipv4Addr :: "Addr option"
  ipv6Addr :: "Addr option"
  ipv4Gateway :: "IP option"
  ipv6Gateway :: "IP option"
  blockIMDS :: bool

record 'w teardownNamespaceClosureContext =
  netLink :: "'w NetLink"
  hardwareAddr :: HardwareAddr

text \<open>
  \<^verbatim>\<open>newSetupNamespaceClosureContext\<close>. The parser \<^verbatim>\<open>net.ParseIP\<close> of the standard library
  is the first argument: it returns nil (\<open>None\<close>) for a string that is no IP address.
\<close>

definition newSetupNamespaceClosureContext ::
  "(string \<Rightarrow> IP option) \<Rightarrow> 'w NetLink \<Rightarrow> string \<Rightarrow> string \<Rightarrow> string \<Rightarrow> string \<Rightarrow> string \<Rightarrow>
   string \<Rightarrow> string \<Rightarrow> bool \<Rightarrow> 'w \<Rightarrow> (error + 'w setupNamespaceClosureContext) \<times> 'w" where
  "newSetupNamespaceClosureContext net_ParseIP netLink' ifName' deviceName' macAddress'
       ipv4Address ipv6Address ipv4Gateway' ipv6Gateway' blockIMDS' w =
     (case ParseAddr netLink' ipv4Address w of
        (Inl err, w1) \<Rightarrow>
          (Inl (errors_Wrap err
             ''setupNamespaceClosure engine: unable to parse ipv4 address for the interface''), w1)
      | (Inr nlIPV4Addr, w1) \<Rightarrow>
         (case net_ParseIP ipv4Gateway' of
            None \<Rightarrow>
              (Inl (errors_New
                 ''setupNamespaceClosure engine: unable to parse address of the ipv4 gateway''), w1)
          | Some ipv4GatewayIP \<Rightarrow>
             (let nsClosure = \<lparr>setupNamespaceClosureContext.netLink = netLink',
                    ifName = ifName',
                    deviceName = deviceName',
                    macAddress = macAddress',
                    ipv4Addr = Some nlIPV4Addr,
                    ipv6Addr = None,
                    ipv4Gateway = Some ipv4GatewayIP,
                    ipv6Gateway = None,
                    blockIMDS = blockIMDS'\<rparr>
              in if ipv6Address \<noteq> ''''
                 then (case ParseAddr netLink' ipv6Address w1 of
                         (Inl err, w2) \<Rightarrow>
                           (Inl (errors_Wrap err
                              ''setupNamespaceClosure engine: unable to parse ipv6 address for the interface''), w2)
                       | (Inr nlIPV6Addr, w2) \<Rightarrow>
                          (case net_ParseIP ipv6Gateway' of
                             None \<Rightarrow>
                               (Inl (errors_New
                                  ''setupNamespaceClosure engine: unable to parse address of the ipv6 gateway''), w2)
                           | Some ipv6GatewayIP \<Rightarrow>
                               (Inr (nsClosure\<lparr>ipv6Addr := Some nlIPV6Addr,
                                               ipv6Gateway := Some ipv6GatewayIP\<rparr>), w2)))
                 else (Inr nsClosure, w1))))"

text \<open>\<^verbatim>\<open>isRouteExistsError\<close>: the type assertion succeeds for a \<^verbatim>\<open>syscall.Errno\<close> only.\<close>

fun isRouteExistsError :: "error \<Rightarrow> bool" where
  "isRouteExistsError (Errno errno) = (errno = EEXIST)"
| "isRouteExistsError _ = False"

text \<open>
  \<^verbatim>\<open>setupNamespaceClosureContext.run\<close>. The namespace argument is ignored by the code.
  \<^verbatim>\<open>net.ParseCIDR\<close> of the standard library is the first argument; from its three results
  the code keeps the network and the error.
\<close>

definition setupNamespaceClosureContext_run ::
  "(string \<Rightarrow> error + IP \<times> IPNet) \<Rightarrow> 'w setupNamespaceClosureContext \<Rightarrow> 'n \<Rightarrow> 'w \<Rightarrow>
   error option \<times> 'w" where
  "setupNamespaceClosureContext_run net_ParseCIDR closureContext ns w =
     (let nl = setupNamespaceClosureContext.netLink closureContext in
      case LinkByName nl (deviceName closureContext) w of
        (Inl err, w1) \<Rightarrow>
          (Some (errors_Wrap err
             (''setupNamespaceClosure engine: unable to get link for device '' @ [CHR 0x27]
                @ deviceName closureContext @ [CHR 0x27])), w1)
      | (Inr eniLink, w1) \<Rightarrow>
     (case LinkSetName nl eniLink (ifName closureContext) w1 of
        (Some err, w2) \<Rightarrow>
          (Some (errors_Wrap err
             ''setupNamespaceClosure engine: unable to change interface name''), w2)
      | (None, w2) \<Rightarrow>
     (case AddrAdd nl eniLink (ipv4Addr closureContext) w2 of
        (Some err, w3) \<Rightarrow>
          (Some (errors_Wrap err
             ''setupNamespaceClosure engine: unable to add ipv4 address to the interface''), w3)
      | (None, w3) \<Rightarrow>
     (case (if ipv6Addr closureContext \<noteq> None
            then AddrAdd nl eniLink (ipv6Addr closureContext) w3
            else (None, w3)) of
        (Some err, w4) \<Rightarrow>
          (Some (errors_Wrap err
             ''setupNamespaceClosure engine: unable to add ipv6 address to the interface''), w4)
      | (None, w4) \<Rightarrow>
     (case LinkSetUp nl eniLink w4 of
        (Some err, w5) \<Rightarrow>
          (Some (errors_Wrap err
             ''setupNamespaceClosure engine: unable to bring up the device''), w5)
      | (None, w5) \<Rightarrow>
     (case (if blockIMDS closureContext
            then (case net_ParseCIDR instanceMetadataEndpoint of
                    Inl err \<Rightarrow>
                      (Some (errors_Wrap err
                         ''setupNamespaceClosure engine: unable to parse instance metadata endpoint''), w5)
                  | Inr (_, imdsNetwork) \<Rightarrow>
                     (case RouteAdd nl (Route_zero\<lparr>Dst := Some imdsNetwork,
                                                   Type := RTN_BLACKHOLE\<rparr>) w5 of
                        (Some err, w6) \<Rightarrow>
                          (Some (errors_Wrap err
                             ''setupNamespaceClosure engine: unable to add route to block instance metadata''), w6)
                      | (None, w6) \<Rightarrow> (None, w6)))
            else (None, w5)) of
        (Some err, w6) \<Rightarrow> (Some err, w6)
      | (None, w6) \<Rightarrow>
     (case RouteAdd nl (Route_zero\<lparr>Gw := ipv4Gateway closureContext\<rparr>) w6 of
        (Some err, w7) \<Rightarrow>
          (Some (errors_Wrap err
             ''setupNamespaceClosure engine: unable to add the route for the ipv4 gateway''), w7)
      | (None, w7) \<Rightarrow>
     (if ipv6Addr closureContext \<noteq> None
      then (case RouteAdd nl (Route_zero\<lparr>LinkIndex := Index eniLink,
                                         Gw := ipv6Gateway closureContext\<rparr>) w7 of
              (Some err, w8) \<Rightarrow>
                (if \<not> isRouteExistsError err
                 then (Some (errors_Wrap err
                         ''setupNamespaceClosure engine: unable to add the route for the ipv6 gateway''), w8)
                 else (None, w8))
            | (None, w8) \<Rightarrow> (None, w8))
      else (None, w7)))))))))"

text \<open>\<^verbatim>\<open>teardownNamespaceClosureContext.run\<close>: the body is \<^verbatim>\<open>return nil\<close>.\<close>

definition teardownNamespaceClosureContext_run ::
  "'w teardownNamespaceClosureContext \<Rightarrow> 'n \<Rightarrow> 'w \<Rightarrow> error option \<times> 'w" where
  "teardownNamespaceClosureContext_run closureContext ns w = (None, w)"

text \<open>
  \<^verbatim>\<open>getLinkByHardwareAddress\<close> (the same text in both engine files): the loop over the
  links returns at the first one whose address prints like the target.
\<close>

fun firstLinkWithAddr :: "Link list \<Rightarrow> HardwareAddr \<Rightarrow> error + Link" where
  "firstLinkWithAddr [] hardwareAddr' = Inl linkWithMACNotFoundError"
| "firstLinkWithAddr (link # links) hardwareAddr' =
     (if HardwareAddr_String (HardwareAddr link) = HardwareAddr_String hardwareAddr'
      then Inr link
      else firstLinkWithAddr links hardwareAddr')"

definition getLinkByHardwareAddress ::
  "'w NetLink \<Rightarrow> HardwareAddr \<Rightarrow> 'w \<Rightarrow> (error + Link) \<times> 'w" where
  "getLinkByHardwareAddress netLink' hardwareAddr' w =
     (case LinkList netLink' w of
        (Inl err, w1) \<Rightarrow> (Inl err, w1)
      | (Inr links, w1) \<Rightarrow> (firstLinkWithAddr links hardwareAddr', w1))"

section \<open>Standard-library functions of the DHCP engine\<close>

text \<open>
  \<^verbatim>\<open>strings.TrimSpace\<close> removes, at both ends, every rune for which \<^verbatim>\<open>unicode.IsSpace\<close>
  holds. A Go string is a byte sequence read as UTF-8, so a space rune is one of the byte
  sequences below: the six ASCII spaces, U+0085, U+00A0, U+1680, U+2000 to U+200A, U+2028,
  U+2029, U+202F, U+205F and U+3000.
\<close>

definition spaceRunes :: "string list" where
  "spaceRunes =
     [[CHR 0x09], [CHR 0x0A], [CHR 0x0B], [CHR 0x0C], [CHR 0x0D], [CHR 0x20],
      [CHR 0xC2, CHR 0x85], [CHR 0xC2, CHR 0xA0],
      [CHR 0xE1, CHR 0x9A, CHR 0x80],
      [CHR 0xE2, CHR 0x80, CHR 0x80], [CHR 0xE2, CHR 0x80, CHR 0x81],
      [CHR 0xE2, CHR 0x80, CHR 0x82], [CHR 0xE2, CHR 0x80, CHR 0x83],
      [CHR 0xE2, CHR 0x80, CHR 0x84], [CHR 0xE2, CHR 0x80, CHR 0x85],
      [CHR 0xE2, CHR 0x80, CHR 0x86], [CHR 0xE2, CHR 0x80, CHR 0x87],
      [CHR 0xE2, CHR 0x80, CHR 0x88], [CHR 0xE2, CHR 0x80, CHR 0x89],
      [CHR 0xE2, CHR 0x80, CHR 0x8A],
      [CHR 0xE2, CHR 0x80, CHR 0xA8], [CHR 0xE2, CHR 0x80, CHR 0xA9],
      [CHR 0xE2, CHR 0x80, CHR 0xAF],
      [CHR 0xE2, CHR 0x81, CHR 0x9F],
      [CHR 0xE3, CHR 0x80, CHR 0x80]]"

function trimLeftSpace :: "string \<Rightarrow> string" where
  "trimLeftSpace s =
     (case find (\<lambda>p. prefix p s) spaceRunes of
        None \<Rightarrow> s
      | Some p \<Rightarrow> trimLeftSpace (drop (length p) s))"
  by pat_completeness auto
termination
proof (relation "measure length")
  show "wf (measure length)" by simp
next
  fix s p :: string
  assume "find (\<lambda>p. prefix p s) spaceRunes = Some p"
  then have "prefix p s" and "p \<in> set spaceRunes"
    by (auto simp: find_Some_iff)
  then have "p \<noteq> []"
    by (auto simp: spaceRunes_def)
  with \<open>prefix p s\<close> \<open>p \<noteq> []\<close> have "length s \<noteq> 0"
    by auto
  with \<open>p \<noteq> []\<close> show "(drop (length p) s, s) \<in> measure length"
    by simp
qed

function trimRightSpace :: "string \<Rightarrow> string" where
  "trimRightSpace s =
     (case find (\<lambda>p. suffix p s) spaceRunes of
        None \<Rightarrow> s
      | Some p \<Rightarrow> trimRightSpace (take (length s - length p) s))"
  by pat_completeness auto
termination
proof (relation "measure length")
  show "wf (measure length)" by simp
next
  fix s p :: string
  assume "find (\<lambda>p. suffix p s) spaceRunes = Some p"
  then have "suffix p s" and "p \<in> set spaceRunes"
    by (auto simp: find_Some_iff)
  then have "p \<noteq> []"
    by (auto simp: spaceRunes_def)
  with \<open>suffix p s\<close> \<open>p \<noteq> []\<close> have "length s \<noteq> 0"
    by auto
  with \<open>p \<noteq> []\<close> show "(take (length s - length p) s, s) \<in> measure length"
    by simp
qed

definition strings_TrimSpace :: "string \<Rightarrow> string" where
  "strings_TrimSpace s = trimRightSpace (trimLeftSpace s)"

text \<open>
  \<^verbatim>\<open>strconv.Atoi\<close> on a platform whose \<^verbatim>\<open>int\<close> has 64 bits: an optional sign, then one
  or more decimal digits. The digits are read left to right into an unsigned 64-bit
  number; a byte that is no digit is a syntax error, a number that no longer fits is a
  range error, whichever comes first. The signed result must lie between \<open>- 2 ^ 63\<close>
  and \<open>2 ^ 63 - 1\<close>.
\<close>

definition strconv_ErrSyntax :: error where
  "strconv_ErrSyntax = ErrorString ''invalid syntax''"

definition strconv_ErrRange :: error where
  "strconv_ErrRange = ErrorString ''value out of range''"

fun parseDigits :: "int \<Rightarrow> string \<Rightarrow> error + int" where
  "parseDigits n [] = Inr n"
| "parseDigits n (c # cs) =
     (if of_char c < (48::int) \<or> (57::int) < of_char c then Inl strconv_ErrSyntax
      else if 2 ^ 64 \<le> n * 10 + (of_char c - 48) then Inl strconv_ErrRange
      else parseDigits (n * 10 + (of_char c - 48)) cs)"

definition strconv_ParseUint :: "string \<Rightarrow> error + int" where
  "strconv_ParseUint s = (if s = [] then Inl strconv_ErrSyntax else parseDigits 0 s)"

definition parseSigned :: "string \<Rightarrow> bool \<Rightarrow> string \<Rightarrow> error + int" where
  "parseSigned s0 neg s =
     (case strconv_ParseUint s of
        Inl err \<Rightarrow> Inl (NumError ''Atoi'' s0 err)
      | Inr un \<Rightarrow>
          if \<not> neg \<and> 2 ^ 63 \<le> un then Inl (NumError ''Atoi'' s0 strconv_ErrRange)
          else if neg \<and> 2 ^ 63 < un then Inl (NumError ''Atoi'' s0 strconv_ErrRange)
          else Inr (if neg then - un else un))"

fun strconv_Atoi :: "string \<Rightarrow> error + int" where
  "strconv_Atoi [] = Inl (NumError ''Atoi'' [] strconv_ErrSyntax)"
| "strconv_Atoi (c # cs) =
     (if c = CHR ''+'' then parseSigned (c # cs) False cs
      else if c = CHR ''-'' then parseSigned (c # cs) True cs
      else parseSigned (c # cs) False (c # cs))"

text \<open>The verb \<^verbatim>\<open>%v\<close> prints a slice of strings in brackets, separated by spaces.\<close>

fun spaced :: "string list \<Rightarrow> string" where
  "spaced [] = []"
| "spaced [a] = a"
| "spaced (a # b # rest) = a @ '' '' @ spaced (b # rest)"

definition fmt_v :: "string list \<Rightarrow> string" where
  "fmt_v args = ''['' @ spaced args @ '']''"

section \<open>More collaborator interfaces\<close>

text \<open>
  \<^verbatim>\<open>execwrapper.Exec\<close> builds a command object, whose \<^verbatim>\<open>CombinedOutput\<close> runs it and
  returns the output together with the error; \<^verbatim>\<open>ioutilwrapper.IOUtil\<close> reads a file;
  \<^verbatim>\<open>oswrapper.OS\<close> finds a process, whose \<^verbatim>\<open>Kill\<close> ends it.
\<close>

record 'w Cmd =
  CombinedOutput :: "'w \<Rightarrow> (string \<times> error option) \<times> 'w"

record 'w Exec =
  Command :: "string \<Rightarrow> string list \<Rightarrow> 'w \<Rightarrow> 'w Cmd \<times> 'w"

record 'w IOUtil =
  ReadFile :: "string \<Rightarrow> 'w \<Rightarrow> (error + string) \<times> 'w"

record 'w OSProcess =
  Kill :: "'w \<Rightarrow> error option \<times> 'w"

record 'w OS =
  FindProcess :: "int \<Rightarrow> 'w \<Rightarrow> (error + 'w OSProcess) \<times> 'w"

section \<open>The DHCP engine (the second engine file)\<close>

definition dhclientExecutableName :: string where
  "dhclientExecutableName = ''dhclient''"

definition dhclientV4LeaseFilePathPrefix :: string where
  "dhclientV4LeaseFilePathPrefix = ''/var/lib/dhclient/ns-dhclient4''"

definition dhclientV4LeasePIDFilePathPrefix :: string where
  "dhclientV4LeasePIDFilePathPrefix = ''/var/run/ns-dhclient4''"

definition dhclientV6LeaseFilePathPrefix :: string where
  "dhclientV6LeaseFilePathPrefix = ''/var/lib/dhclient/ns-dhclient6''"

definition dhclientV6LeasePIDFilePathPrefix :: string where
  "dhclientV6LeasePIDFilePathPrefix = ''/var/run/ns-dhclient6''"

record 'w setupNamespaceClosure =
  netLink :: "'w NetLink"
  exec :: "'w Exec"
  deviceName :: string
  ipv4Addr :: "Addr option"
  ipv6Addr :: "Addr option"

record 'w teardownNamespaceClosure =
  netLink :: "'w NetLink"
  ioutil :: "'w IOUtil"
  os :: "'w OS"
  hardwareAddr :: HardwareAddr
  stopDHClient6 :: bool

definition newSetupNamespaceClosure ::
  "'w NetLink \<Rightarrow> 'w Exec \<Rightarrow> string \<Rightarrow> string \<Rightarrow> string \<Rightarrow> 'w \<Rightarrow>
   (error + 'w setupNamespaceClosure) \<times> 'w" where
  "newSetupNamespaceClosure netLink' exec' deviceName' ipv4Address ipv6Address w =
     (case ParseAddr netLink' ipv4Address w of
        (Inl err, w1) \<Rightarrow>
          (Inl (errors_Wrap err
             ''setupNamespaceClosure engine: unable to parse ipv4 address for the interface''), w1)
      | (Inr nlIPV4Addr, w1) \<Rightarrow>
         (let nsClosure = \<lparr>setupNamespaceClosure.netLink = netLink',
                exec = exec',
                setupNamespaceClosure.deviceName = deviceName',
                setupNamespaceClosure.ipv4Addr = Some nlIPV4Addr,
                setupNamespaceClosure.ipv6Addr = None\<rparr>
          in if ipv6Address \<noteq> ''''
             then (case ParseAddr netLink' ipv6Address w1 of
                     (Inl err, w2) \<Rightarrow>
                       (Inl (errors_Wrap err
                          ''setupNamespaceClosure engine: unable to parse ipv6 address for the interface''), w2)
                   | (Inr nlIPV6Addr, w2) \<Rightarrow>
                       (Inr (nsClosure\<lparr>setupNamespaceClosure.ipv6Addr := Some nlIPV6Addr\<rparr>), w2))
             else (Inr nsClosure, w1)))"

definition constructDHClientLeasePIDFilePathIPV4 :: "string \<Rightarrow> string" where
  "constructDHClientLeasePIDFilePathIPV4 deviceName' =
     dhclientV4LeasePIDFilePathPrefix @ ''-'' @ deviceName' @ ''.pid''"

definition constructDHClientLeasePIDFilePathIPV6 :: "string \<Rightarrow> string" where
  "constructDHClientLeasePIDFilePathIPV6 deviceName' =
     dhclientV6LeasePIDFilePathPrefix @ ''-'' @ deviceName' @ ''.pid''"

definition constructDHClientV4Args :: "string \<Rightarrow> string list" where
  "constructDHClientV4Args deviceName' =
     [''-q'',
      ''-lf'', dhclientV4LeaseFilePathPrefix @ ''-'' @ deviceName' @ ''.leases'',
      ''-pf'', constructDHClientLeasePIDFilePathIPV4 deviceName',
      deviceName']"

definition constructDHClientV6Args :: "string \<Rightarrow> string list" where
  "constructDHClientV6Args deviceName' =
     [''-q'',
      ''-6'',
      ''-lf'', dhclientV6LeaseFilePathPrefix @ ''-'' @ deviceName' @ ''.leases'',
      ''-pf'', constructDHClientLeasePIDFilePathIPV6 deviceName',
      deviceName']"

text \<open>
  \<^verbatim>\<open>startDHClientV4\<close> and \<^verbatim>\<open>startDHClientV6\<close>. The line each writes to the log on
  failure is left out: the logger is no part of the result.
\<close>

definition startDHClientV4 :: "'w setupNamespaceClosure \<Rightarrow> 'w \<Rightarrow> error option \<times> 'w" where
  "startDHClientV4 closure w =
     (let args = constructDHClientV4Args (setupNamespaceClosure.deviceName closure) in
      case Command (exec closure) dhclientExecutableName args w of
        (cmd, w1) \<Rightarrow>
     (case CombinedOutput cmd w1 of
        ((out, Some err), w2) \<Rightarrow>
          (Some (errors_Wrap err
             (''setupNamespaceClosure engine: unable to start dhclient for ipv4 address; command: ''
                @ dhclientExecutableName @ '' '' @ fmt_v args @ ''; output: '' @ out)), w2)
      | ((out, None), w2) \<Rightarrow> (None, w2)))"

definition startDHClientV6 :: "'w setupNamespaceClosure \<Rightarrow> 'w \<Rightarrow> error option \<times> 'w" where
  "startDHClientV6 closure w =
     (let args = constructDHClientV6Args (setupNamespaceClosure.deviceName closure) in
      case Command (exec closure) dhclientExecutableName args w of
        (cmd, w1) \<Rightarrow>
     (case CombinedOutput cmd w1 of
        ((out, Some err), w2) \<Rightarrow>
          (Some (errors_Wrap err
             (''setupNamespaceClosure engine: unable to start dhclient for ipv6 address; command: ''
                @ dhclientExecutableName @ '' '' @ fmt_v args @ ''; output: '' @ out)), w2)
      | ((out, None), w2) \<Rightarrow> (None, w2)))"

text \<open>\<^verbatim>\<open>setupNamespaceClosure.run\<close>.\<close>

definition setupNamespaceClosure_run ::
  "'w setupNamespaceClosure \<Rightarrow> 'n \<Rightarrow> 'w \<Rightarrow> error option \<times> 'w" where
  "setupNamespaceClosure_run closure ns w =
     (let nl = setupNamespaceClosure.netLink closure in
      case LinkByName nl (setupNamespaceClosure.deviceName closure) w of
        (Inl err, w1) \<Rightarrow>
          (Some (errors_Wrap err
             (''setupNamespaceClosure engine: unable to get link for device '' @ [CHR 0x27]
                @ setupNamespaceClosure.deviceName closure @ [CHR 0x27])), w1)
      | (Inr eniLink, w1) \<Rightarrow>
     (case AddrAdd nl eniLink (setupNamespaceClosure.ipv4Addr closure) w1 of
        (Some err, w2) \<Rightarrow>
          (Some (errors_Wrap err
             ''setupNamespaceClosure engine: unable to add ipv4 address to the interface''), w2)
      | (None, w2) \<Rightarrow>
     (case (if setupNamespaceClosure.ipv6Addr closure \<noteq> None
            then AddrAdd nl eniLink (setupNamespaceClosure.ipv6Addr closure) w2
            else (None, w2)) of
        (Some err, w3) \<Rightarrow>
          (Some (errors_Wrap err
             ''setupNamespaceClosure engine: unable to add ipv6 address to the interface''), w3)
      | (None, w3) \<Rightarrow>
     (case LinkSetUp nl eniLink w3 of
        (Some err, w4) \<Rightarrow>
          (Some (errors_Wrap err
             ''setupNamespaceClosure engine: unable to bring up the device''), w4)
      | (None, w4) \<Rightarrow>
     (case startDHClientV4 closure w4 of
        (Some err, w5) \<Rightarrow> (Some err, w5)
      | (None, w5) \<Rightarrow>
     (if setupNamespaceClosure.ipv6Addr closure \<noteq> None
      then (case startDHClientV6 closure w5 of
              (Some err, w6) \<Rightarrow> (Some err, w6)
            | (None, w6) \<Rightarrow> (None, w6))
      else (None, w5)))))))"

text \<open>
  \<^verbatim>\<open>teardownNamespaceClosure.stopDHClient\<close>: read the PID file, parse the trimmed
  contents, get the process, kill it.
\<close>

definition stopDHClient ::
  "'w teardownNamespaceClosure \<Rightarrow> string \<Rightarrow> 'w \<Rightarrow> error option \<times> 'w" where
  "stopDHClient closure pidFilePath w =
     (case ReadFile (ioutil closure) pidFilePath w of
        (Inl err, w1) \<Rightarrow>
          (Some (errors_Wrap err
             (''teardownNamespaceClosure engine: error reading dhclient pid from '' @ [CHR 0x27]
                @ pidFilePath @ [CHR 0x27])), w1)
      | (Inr contents, w1) \<Rightarrow>
     (case strconv_Atoi (strings_TrimSpace contents) of
        Inl err \<Rightarrow>
          (Some (errors_Wrap err
             (''teardownNamespaceClosure engine: error parsing dhclient pid from '' @ [CHR 0x27]
                @ pidFilePath @ [CHR 0x27])), w1)
      | Inr pid \<Rightarrow>
     (case FindProcess (os closure) pid w1 of
        (Inl err, w2) \<Rightarrow>
          (Some (errors_Wrap err
             (''teardownNamespaceClosure engine: error getting process handle for dhclient, pid file: ''
                @ [CHR 0x27] @ pidFilePath @ [CHR 0x27])), w2)
      | (Inr process, w2) \<Rightarrow>
     (case Kill process w2 of
        (Some err, w3) \<Rightarrow>
          (Some (errors_Wrap err
             (''teardownNamespaceClosure engine: error stopping the dhclient process, pid file: ''
                @ [CHR 0x27] @ pidFilePath @ [CHR 0x27])), w3)
      | (None, w3) \<Rightarrow> (None, w3)))))"

text \<open>
  \<^verbatim>\<open>teardownNamespaceClosure.run\<close>; the two lines it writes to the log are left out.
\<close>

definition teardownNamespaceClosure_run ::
  "'w teardownNamespaceClosure \<Rightarrow> 'n \<Rightarrow> 'w \<Rightarrow> error option \<times> 'w" where
  "teardownNamespaceClosure_run closure ns w =
     (case getLinkByHardwareAddress (teardownNamespaceClosure.netLink closure)
             (teardownNamespaceClosure.hardwareAddr closure) w of
        (Inl err, w1) \<Rightarrow>
          (Some (errors_Wrap err
             (''teardownNamespaceClosure engine: unable to get device with hardware address ''
                @ [CHR 0x27]
                @ HardwareAddr_String (teardownNamespaceClosure.hardwareAddr closure)
                @ [CHR 0x27])), w1)
      | (Inr link, w1) \<Rightarrow>
     (let deviceName' = Name link in
      case stopDHClient closure (constructDHClientLeasePIDFilePathIPV4 deviceName') w1 of
        (Some err, w2) \<Rightarrow> (Some err, w2)
      | (None, w2) \<Rightarrow>
     (if stopDHClient6 closure
      then (case stopDHClient closure (constructDHClientLeasePIDFilePathIPV6 deviceName') w2 of
              (Some err, w3) \<Rightarrow> (Some err, w3)
            | (None, w3) \<Rightarrow> (None, w3))
      else (None, w2))))"

section \<open>Observing the calls: recording collaborators\<close>

text \<open>
  A recording collaborator wraps any collaborator and appends, to a log kept in the
  world, each call made on it together with the error the call returned. The engine is
  run unchanged on the wrapped collaborators; the log then tells which operations it
  performed and in which order.
\<close>

datatype call =
    ParseAddrCall string
  | LinkByNameCall string
  | LinkSetNameCall Link string
  | AddrAddCall Link "Addr option"
  | LinkSetUpCall Link
  | RouteAddCall Route
  | LinkListCall
  | CommandCall string "string list"
  | CombinedOutputCall string "string list"
  | ReadFileCall string
  | FindProcessCall int
  | KillCall int

type_synonym event = "call \<times> error option"

fun errorOf :: "error + 'a \<Rightarrow> error option" where
  "errorOf (Inl err) = Some err"
| "errorOf (Inr v) = None"

definition recordingNetLink :: "'w NetLink \<Rightarrow> (event list \<times> 'w) NetLink" where
  "recordingNetLink nl =
     \<lparr>ParseAddr = (\<lambda>s (t, w). case ParseAddr nl s w of
          (r, w') \<Rightarrow> (r, (t @ [(ParseAddrCall s, errorOf r)], w'))),
      LinkByName = (\<lambda>name (t, w). case LinkByName nl name w of
          (r, w') \<Rightarrow> (r, (t @ [(LinkByNameCall name, errorOf r)], w'))),
      LinkSetName = (\<lambda>link name (t, w). case LinkSetName nl link name w of
          (r, w') \<Rightarrow> (r, (t @ [(LinkSetNameCall link name, r)], w'))),
      AddrAdd = (\<lambda>link addr (t, w). case AddrAdd nl link addr w of
          (r, w') \<Rightarrow> (r, (t @ [(AddrAddCall link addr, r)], w'))),
      LinkSetUp = (\<lambda>link (t, w). case LinkSetUp nl link w of
          (r, w') \<Rightarrow> (r, (t @ [(LinkSetUpCall link, r)], w'))),
      RouteAdd = (\<lambda>route (t, w). case RouteAdd nl route w of
          (r, w') \<Rightarrow> (r, (t @ [(RouteAddCall route, r)], w'))),
      LinkList = (\<lambda>(t, w). case LinkList nl w of
          (r, w') \<Rightarrow> (r, (t @ [(LinkListCall, errorOf r)], w')))\<rparr>"

definition recordingCmd :: "string \<Rightarrow> string list \<Rightarrow> 'w Cmd \<Rightarrow> (event list \<times> 'w) Cmd" where
  "recordingCmd name args cmd =
     \<lparr>CombinedOutput = (\<lambda>(t, w). case CombinedOutput cmd w of
          ((out, r), w') \<Rightarrow> ((out, r), (t @ [(CombinedOutputCall name args, r)], w')))\<rparr>"

definition recordingExec :: "'w Exec \<Rightarrow> (event list \<times> 'w) Exec" where
  "recordingExec ex =
     \<lparr>Command = (\<lambda>name args (t, w). case Command ex name args w of
          (cmd, w') \<Rightarrow> (recordingCmd name args cmd, (t @ [(CommandCall name args, None)], w')))\<rparr>"

definition recordingIOUtil :: "'w IOUtil \<Rightarrow> (event list \<times> 'w) IOUtil" where
  "recordingIOUtil io =
     \<lparr>ReadFile = (\<lambda>path (t, w). case ReadFile io path w of
          (r, w') \<Rightarrow> (r, (t @ [(ReadFileCall path, errorOf r)], w')))\<rparr>"

definition recordingProcess :: "int \<Rightarrow> 'w OSProcess \<Rightarrow> (event list \<times> 'w) OSProcess" where
  "recordingProcess pid process =
     \<lparr>Kill = (\<lambda>(t, w). case Kill process w of
          (r, w') \<Rightarrow> (r, (t @ [(KillCall pid, r)], w')))\<rparr>"

definition recordingOS :: "'w OS \<Rightarrow> (event list \<times> 'w) OS" where
  "recordingOS os' =
     \<lparr>FindProcess = (\<lambda>pid (t, w). case FindProcess os' pid w of
          (r, w') \<Rightarrow> (map_sum id (recordingProcess pid) r,
                      (t @ [(FindProcessCall pid, errorOf r)], w')))\<rparr>"

text \<open>The closures with every collaborator replaced by its recording version.\<close>

definition recordingSetupContext ::
  "'w setupNamespaceClosureContext \<Rightarrow> (event list \<times> 'w) setupNamespaceClosureContext" where
  "recordingSetupContext c =
     \<lparr>setupNamespaceClosureContext.netLink =
        recordingNetLink (setupNamespaceClosureContext.netLink c),
      ifName = ifName c,
      deviceName = setupNamespaceClosureContext.deviceName c,
      macAddress = macAddress c,
      ipv4Addr = setupNamespaceClosureContext.ipv4Addr c,
      ipv6Addr = setupNamespaceClosureContext.ipv6Addr c,
      ipv4Gateway = ipv4Gateway c,
      ipv6Gateway = ipv6Gateway c,
      blockIMDS = blockIMDS c\<rparr>"

definition recordingSetupClosure ::
  "'w setupNamespaceClosure \<Rightarrow> (event list \<times> 'w) setupNamespaceClosure" where
  "recordingSetupClosure c =
     \<lparr>setupNamespaceClosure.netLink = recordingNetLink (setupNamespaceClosure.netLink c),
      exec = recordingExec (exec c),
      deviceName = setupNamespaceClosure.deviceName c,
      ipv4Addr = setupNamespaceClosure.ipv4Addr c,
      ipv6Addr = setupNamespaceClosure.ipv6Addr c\<rparr>"

definition recordingTeardownClosure ::
  "'w teardownNamespaceClosure \<Rightarrow> (event list \<times> 'w) teardownNamespaceClosure" where
  "recordingTeardownClosure c =
     \<lparr>teardownNamespaceClosure.netLink = recordingNetLink (teardownNamespaceClosure.netLink c),
      ioutil = recordingIOUtil (ioutil c),
      os = recordingOS (os c),
      hardwareAddr = teardownNamespaceClosure.hardwareAddr c,
      stopDHClient6 = stopDHClient6 c\<rparr>"

section \<open>Test doubles\<close>

text \<open>
  Concrete collaborators for the worked examples. They keep no state of their own (the
  world is \<open>unit\<close>); \<open>fails\<close> chooses the calls that return an error.
\<close>

definition mockParseAddr :: "string \<Rightarrow> error + Addr" where
  "mockParseAddr s =
     (if s = ''10.0.1.5/24''
      then Inr \<lparr>AddrIPNet = \<lparr>IP = [10, 0, 1, 5], Mask = [255, 255, 255, 0]\<rparr>, Label = ''''\<rparr>
      else if s = ''2001:db8::5/64''
      then Inr \<lparr>AddrIPNet = \<lparr>IP = [0x20, 0x01, 0x0d, 0xb8, 0, 0, 0, 0, 0, 0, 0, 0, 0, 0, 0, 5],
                              Mask = [255, 255, 255, 255, 255, 255, 255, 255,
                                      0, 0, 0, 0, 0, 0, 0, 0]\<rparr>, Label = ''''\<rparr>
      else Inl (ErrorString ''invalid CIDR address''))"

definition mockParseIP :: "string \<Rightarrow> IP option" where
  "mockParseIP s =
     (if s = ''10.0.1.1'' then Some [10, 0, 1, 1]
      else if s = ''2001:db8::1''
      then Some [0x20, 0x01, 0x0d, 0xb8, 0, 0, 0, 0, 0, 0, 0, 0, 0, 0, 0, 1]
      else None)"

definition mockParseCIDR :: "string \<Rightarrow> error + IP \<times> IPNet" where
  "mockParseCIDR s =
     (if s = ''169.254.169.254/32''
      then Inr ([169, 254, 169, 254],
                \<lparr>IP = [169, 254, 169, 254], Mask = [255, 255, 255, 255]\<rparr>)
      else Inl (ErrorString ''invalid CIDR address''))"

definition mockNetLink :: "Link list \<Rightarrow> (call \<Rightarrow> error option) \<Rightarrow> unit NetLink" where
  "mockNetLink links fails =
     \<lparr>ParseAddr = (\<lambda>s w. (mockParseAddr s, w)),
      LinkByName = (\<lambda>name w.
         (case fails (LinkByNameCall name) of
            Some err \<Rightarrow> Inl err
          | None \<Rightarrow> (case find (\<lambda>l. Name l = name) links of
                       None \<Rightarrow> Inl (ErrorString ''Link not found'')
                     | Some l \<Rightarrow> Inr l), w)),
      LinkSetName = (\<lambda>link name w. (fails (LinkSetNameCall link name), w)),
      AddrAdd = (\<lambda>link addr w. (fails (AddrAddCall link addr), w)),
      LinkSetUp = (\<lambda>link w. (fails (LinkSetUpCall link), w)),
      RouteAdd = (\<lambda>route w. (fails (RouteAddCall route), w)),
      LinkList = (\<lambda>w.
         (case fails LinkListCall of Some err \<Rightarrow> Inl err | None \<Rightarrow> Inr links, w))\<rparr>"

definition mockExec :: "(call \<Rightarrow> error option) \<Rightarrow> unit Exec" where
  "mockExec fails =
     \<lparr>Command = (\<lambda>name args w.
         (\<lparr>CombinedOutput = (\<lambda>w. ((''out'', fails (CombinedOutputCall name args)), w))\<rparr>, w))\<rparr>"

definition mockIOUtil :: "(string \<Rightarrow> error + string) \<Rightarrow> unit IOUtil" where
  "mockIOUtil files = \<lparr>ReadFile = (\<lambda>path w. (files path, w))\<rparr>"

definition mockOS :: "(call \<Rightarrow> error option) \<Rightarrow> unit OS" where
  "mockOS fails =
     \<lparr>FindProcess = (\<lambda>pid w.
         (case fails (FindProcessCall pid) of
            Some err \<Rightarrow> Inl err
          | None \<Rightarrow> Inr \<lparr>Kill = (\<lambda>w. (fails (KillCall pid), w))\<rparr>, w))\<rparr>"

definition eni1 :: Link where
  "eni1 = \<lparr>Index = 2, Name = ''eni1'', HardwareAddr = [0x0a, 0x1b, 0x2c, 0x3d, 0x4e, 0x5f]\<rparr>"

definition eni2 :: Link where
  "eni2 = \<lparr>Index = 3, Name = ''eni1'', HardwareAddr = [0x0a, 0x1b, 0x2c, 0x3d, 0x4e, 0x60]\<rparr>"

section \<open>Notions used in the statements\<close>

text \<open>A link has the target address when the two addresses print alike.\<close>

definition sameAddr :: "HardwareAddr \<Rightarrow> Link \<Rightarrow> bool" where
  "sameAddr hw l = (HardwareAddr_String (HardwareAddr l) = HardwareAddr_String hw)"

text \<open>The three routes the static-address setup installs, as the code builds them.\<close>

definition blackholeRoute :: "IPNet \<Rightarrow> Route" where
  "blackholeRoute imdsNetwork = Route_zero\<lparr>Dst := Some imdsNetwork, Type := RTN_BLACKHOLE\<rparr>"

definition ipv4GatewayRoute :: "'w setupNamespaceClosureContext \<Rightarrow> Route" where
  "ipv4GatewayRoute c = Route_zero\<lparr>Gw := ipv4Gateway c\<rparr>"

definition ipv6GatewayRoute :: "'w setupNamespaceClosureContext \<Rightarrow> Link \<Rightarrow> Route" where
  "ipv6GatewayRoute c eniLink = Route_zero\<lparr>LinkIndex := Index eniLink, Gw := ipv6Gateway c\<rparr>"

section \<open>More test doubles\<close>

text \<open>
  \<open>failRoute which err\<close> makes the route-add primitive return \<open>err\<close> for the routes that
  \<open>which\<close> selects; every other call succeeds. \<open>dualStackContext\<close> is a context with both
  address families on the device \<open>eni1\<close>.
\<close>

definition failRoute :: "(Route \<Rightarrow> bool) \<Rightarrow> error \<Rightarrow> call \<Rightarrow> error option" where
  "failRoute which err c =
     (case c of RouteAddCall r \<Rightarrow> if which r then Some err else None | _ \<Rightarrow> None)"

definition isBlackhole :: "Route \<Rightarrow> bool" where
  "isBlackhole r = (Type r = RTN_BLACKHOLE)"

definition isLinkScoped :: "Route \<Rightarrow> bool" where
  "isLinkScoped r = (LinkIndex r \<noteq> 0)"

definition isPlainGateway :: "Route \<Rightarrow> bool" where
  "isPlainGateway r = (LinkIndex r = 0 \<and> Type r = 0)"

definition testAddr4 :: Addr where
  "testAddr4 = \<lparr>AddrIPNet = \<lparr>IP = [10, 0, 1, 5], Mask = [255, 255, 255, 0]\<rparr>, Label = ''''\<rparr>"

definition testAddr6 :: Addr where
  "testAddr6 = \<lparr>AddrIPNet = \<lparr>IP = [0x20, 0x01, 0x0d, 0xb8, 0, 0, 0, 0, 0, 0, 0, 0, 0, 0, 0, 5],
                              Mask = [255, 255, 255, 255, 255, 255, 255, 255,
                                      0, 0, 0, 0, 0, 0, 0, 0]\<rparr>, Label = ''''\<rparr>"

definition imdsNet :: IPNet where
  "imdsNet = \<lparr>IP = [169, 254, 169, 254], Mask = [255, 255, 255, 255]\<rparr>"

definition dualStackContext ::
  "bool \<Rightarrow> (call \<Rightarrow> error option) \<Rightarrow> unit setupNamespaceClosureContext" where
  "dualStackContext block fails =
     \<lparr>setupNamespaceClosureContext.netLink = mockNetLink [eni1] fails,
      ifName = ''eth0'',
      deviceName = ''eni1'',
      macAddress = ''0a:1b:2c:3d:4e:5f'',
      ipv4Addr = Some testAddr4,
      ipv6Addr = Some testAddr6,
      ipv4Gateway = Some [10, 0, 1, 1],
      ipv6Gateway = Some [0x20, 0x01, 0x0d, 0xb8, 0, 0, 0, 0, 0, 0, 0, 0, 0, 0, 0, 1],
      blockIMDS = block\<rparr>"

section \<open>Device lookup by hardware address\<close>

lemma firstLinkWithAddr_first:
  "\<forall>l' \<in> set pre. \<not> sameAddr hw l' \<Longrightarrow> sameAddr hw l \<Longrightarrow>
     firstLinkWithAddr (pre @ l # post) hw = Inr l"
  by (induction pre) (simp_all add: sameAddr_def)

lemma firstLinkWithAddr_none:
  "\<forall>l' \<in> set links. \<not> sameAddr hw l' \<Longrightarrow>
     firstLinkWithAddr links hw = Inl linkWithMACNotFoundError"
  by (induction links) (simp_all add: sameAddr_def)

lemma firstLinkWithAddr_unique:
  assumes "l \<in> set links" and "sameAddr hw l"
    and "\<forall>l' \<in> set links. sameAddr hw l' \<longrightarrow> l' = l"
  shows "firstLinkWithAddr links hw = Inr l"
proof -
  from assms(1) obtain pre post where sp: "links = pre @ l # post" and np: "l \<notin> set pre"
    using split_list_first by fastforce
  have "\<forall>l' \<in> set pre. \<not> sameAddr hw l'"
  proof
    fix l' assume a: "l' \<in> set pre"
    then have "l' \<in> set links" using sp by simp
    with assms(3) a np show "\<not> sameAddr hw l'" by blast
  qed
  then show ?thesis unfolding sp using assms(2) by (rule firstLinkWithAddr_first)
qed

text \<open>
  Claim C6. \<^verbatim>\<open>getLinkByHardwareAddress\<close> asks the link-list primitive for the links and
  returns the first one whose hardware address prints like the target: when the list is
  \<open>pre @ l # post\<close>, no link of \<open>pre\<close> has the address and \<open>l\<close> has it, the result is
  \<open>l\<close>. When no link has the address the result is the sentinel error
  \<open>linkWithMACNotFoundError\<close>. When exactly one link of the list has the address, that
  link is the result, whatever the other links are. An error of the link-list primitive is
  returned as it is.
\<close>

theorem getLinkByHardwareAddress_first_match:
  "(LinkList nl w = (Inl err, w1) \<longrightarrow> getLinkByHardwareAddress nl hw w = (Inl err, w1)) \<and>
   (LinkList nl w = (Inr (pre @ l # post), w1) \<longrightarrow> (\<forall>l' \<in> set pre. \<not> sameAddr hw l') \<longrightarrow>
      sameAddr hw l \<longrightarrow> getLinkByHardwareAddress nl hw w = (Inr l, w1)) \<and>
   (LinkList nl w = (Inr links, w1) \<longrightarrow> (\<forall>l' \<in> set links. \<not> sameAddr hw l') \<longrightarrow>
      getLinkByHardwareAddress nl hw w = (Inl linkWithMACNotFoundError, w1)) \<and>
   (LinkList nl w = (Inr links, w1) \<longrightarrow> l \<in> set links \<longrightarrow> sameAddr hw l \<longrightarrow>
      (\<forall>l' \<in> set links. sameAddr hw l' \<longrightarrow> l' = l) \<longrightarrow>
      getLinkByHardwareAddress nl hw w = (Inr l, w1))"
proof (intro conjI impI)
  assume "LinkList nl w = (Inl err, w1)"
  then show "getLinkByHardwareAddress nl hw w = (Inl err, w1)"
    by (simp add: getLinkByHardwareAddress_def)
next
  assume ll: "LinkList nl w = (Inr (pre @ l # post), w1)"
    and no: "\<forall>l' \<in> set pre. \<not> sameAddr hw l'" and yes: "sameAddr hw l"
  from no yes have "firstLinkWithAddr (pre @ l # post) hw = Inr l"
    by (rule firstLinkWithAddr_first)
  with ll show "getLinkByHardwareAddress nl hw w = (Inr l, w1)"
    by (simp only: getLinkByHardwareAddress_def prod.case sum.case)
next
  assume ll: "LinkList nl w = (Inr links, w1)"
    and no: "\<forall>l' \<in> set links. \<not> sameAddr hw l'"
  from no have "firstLinkWithAddr links hw = Inl linkWithMACNotFoundError"
    by (rule firstLinkWithAddr_none)
  with ll show "getLinkByHardwareAddress nl hw w = (Inl linkWithMACNotFoundError, w1)"
    by (simp only: getLinkByHardwareAddress_def prod.case sum.case)
next
  assume ll: "LinkList nl w = (Inr links, w1)" and mem: "l \<in> set links"
    and yes: "sameAddr hw l"
    and uniq: "\<forall>l' \<in> set links. sameAddr hw l' \<longrightarrow> l' = l"
  from mem yes uniq have "firstLinkWithAddr links hw = Inr l"
    by (rule firstLinkWithAddr_unique)
  with ll show "getLinkByHardwareAddress nl hw w = (Inr l, w1)"
    by (simp only: getLinkByHardwareAddress_def prod.case sum.case)
qed

text \<open>
  Two links that differ only in the hardware address (and the index): the lookup of the
  second address returns the second link; an address that no link has gives the sentinel;
  a failing link-list primitive gives its own error.
\<close>

theorem getLinkByHardwareAddress_first_match_witness:
  "LinkList (mockNetLink [eni1, eni2] (\<lambda>c. None)) () = (Inr ([eni1] @ eni2 # []), ()) \<and>
   \<not> sameAddr (HardwareAddr eni2) eni1 \<and>
   sameAddr (HardwareAddr eni2) eni2 \<and>
   getLinkByHardwareAddress (mockNetLink [eni1, eni2] (\<lambda>c. None)) (HardwareAddr eni2) ()
     = (Inr eni2, ()) \<and>
   \<not> sameAddr [0, 0, 0, 0, 0, 1] eni1 \<and>
   \<not> sameAddr [0, 0, 0, 0, 0, 1] eni2 \<and>
   getLinkByHardwareAddress (mockNetLink [eni1, eni2] (\<lambda>c. None)) [0, 0, 0, 0, 0, 1] ()
     = (Inl linkWithMACNotFoundError, ()) \<and>
   LinkList (mockNetLink [eni1, eni2] (\<lambda>c. Some (Errno 1))) () = (Inl (Errno 1), ()) \<and>
   getLinkByHardwareAddress (mockNetLink [eni1, eni2] (\<lambda>c. Some (Errno 1)))
     (HardwareAddr eni2) () = (Inl (Errno 1), ())"
proof -
  let ?nl = "mockNetLink [eni1, eni2] (\<lambda>c. None)"
  let ?bad = "mockNetLink [eni1, eni2] (\<lambda>c. Some (Errno 1))"
  have ll: "LinkList ?nl () = (Inr ([eni1] @ eni2 # []), ())"
    by (simp add: mockNetLink_def)
  have ll': "LinkList ?nl () = (Inr [eni1, eni2], ())"
    by (simp add: mockNetLink_def)
  have lb: "LinkList ?bad () = (Inl (Errno 1), ())"
    by (simp add: mockNetLink_def)
  have n1: "\<not> sameAddr (HardwareAddr eni2) eni1"
    by code_simp
  have yes: "sameAddr (HardwareAddr eni2) eni2"
    by (simp add: sameAddr_def)
  have n2: "\<not> sameAddr [0, 0, 0, 0, 0, 1] eni1" and n3: "\<not> sameAddr [0, 0, 0, 0, 0, 1] eni2"
    by code_simp+
  have no: "\<forall>l' \<in> set [eni1]. \<not> sameAddr (HardwareAddr eni2) l'"
    using n1 by simp
  have mem: "eni2 \<in> set [eni1, eni2]"
    by simp
  have uniq: "\<forall>l' \<in> set [eni1, eni2]. sameAddr (HardwareAddr eni2) l' \<longrightarrow> l' = eni2"
    using n1 by simp
  have none: "\<forall>l' \<in> set [eni1, eni2]. \<not> sameAddr [0, 0, 0, 0, 0, 1] l'"
    using n2 n3 by simp
  note claim = getLinkByHardwareAddress_first_match
  have r1: "getLinkByHardwareAddress ?nl (HardwareAddr eni2) () = (Inr eni2, ())"
    using claim [where nl = ?nl and w = "()" and ?w1.0 = "()" and pre = "[eni1]" and l = eni2
        and post = "[]" and hw = "HardwareAddr eni2"] ll no yes
    by blast
  have r1': "getLinkByHardwareAddress ?nl (HardwareAddr eni2) () = (Inr eni2, ())"
    using claim [where nl = ?nl and w = "()" and ?w1.0 = "()" and l = eni2
        and links = "[eni1, eni2]" and hw = "HardwareAddr eni2"] ll' mem yes uniq
    by blast
  have r2: "getLinkByHardwareAddress ?nl [0, 0, 0, 0, 0, 1] () = (Inl linkWithMACNotFoundError, ())"
    using claim [where nl = ?nl and w = "()" and ?w1.0 = "()" and hw = "[0, 0, 0, 0, 0, 1]"
        and links = "[eni1, eni2]"] ll' none
    by blast
  have r3: "getLinkByHardwareAddress ?bad (HardwareAddr eni2) () = (Inl (Errno 1), ())"
    using claim [where nl = ?bad and w = "()" and ?w1.0 = "()" and err = "Errno 1"] lb
    by blast
  from ll n1 yes r1 r1' n2 n3 r2 lb r3 show ?thesis
    by blast
qed

section \<open>Teardown of the static-address engine\<close>

text \<open>
  Claim C8. The teardown closure of the static-address engine returns nil for every
  context, namespace and state of the world, and the world is returned as it was. Run on a
  recording collaborator, it leaves the log of calls as it was: no operation is performed.
\<close>

theorem static_teardown_is_noop:
  "teardownNamespaceClosureContext_run closureContext ns w = (None, w) \<and>
   teardownNamespaceClosureContext_run
     \<lparr>teardownNamespaceClosureContext.netLink = recordingNetLink nl,
      teardownNamespaceClosureContext.hardwareAddr = hw\<rparr> ns' (t, w') = (None, (t, w'))"
  by (simp add: teardownNamespaceClosureContext_run_def)

theorem static_teardown_is_noop_witness:
  "teardownNamespaceClosureContext_run
     \<lparr>teardownNamespaceClosureContext.netLink = recordingNetLink (mockNetLink [eni1] (\<lambda>c. None)),
      teardownNamespaceClosureContext.hardwareAddr = HardwareAddr eni1\<rparr> (0::nat) ([], ())
     = (None, ([], ()))"
  by (rule static_teardown_is_noop [THEN conjunct2])

section \<open>The static-address setup: how far a run gets\<close>

lemma run_blackhole_fails:
  fixes c :: "'w setupNamespaceClosureContext" and ns :: 'n
  assumes "LinkByName (setupNamespaceClosureContext.netLink c)
             (setupNamespaceClosureContext.deviceName c) w0 = (Inr eniLink, w1)"
    and "LinkSetName (setupNamespaceClosureContext.netLink c) eniLink (ifName c) w1 = (None, w2)"
    and "AddrAdd (setupNamespaceClosureContext.netLink c) eniLink
           (setupNamespaceClosureContext.ipv4Addr c) w2 = (None, w3)"
    and "if setupNamespaceClosureContext.ipv6Addr c \<noteq> None
         then AddrAdd (setupNamespaceClosureContext.netLink c) eniLink
                (setupNamespaceClosureContext.ipv6Addr c) w3 = (None, w4)
         else w4 = w3"
    and "LinkSetUp (setupNamespaceClosureContext.netLink c) eniLink w4 = (None, w5)"
    and "net_ParseCIDR instanceMetadataEndpoint = Inr (ip, imdsNetwork)"
    and "blockIMDS c"
    and "RouteAdd (setupNamespaceClosureContext.netLink c) (blackholeRoute imdsNetwork) w5
           = (Some err, w6)"
  shows "setupNamespaceClosureContext_run net_ParseCIDR c ns w0 =
           (Some (errors_Wrap err
              ''setupNamespaceClosure engine: unable to add route to block instance metadata''), w6)"
  using assms
  by (cases "setupNamespaceClosureContext.ipv6Addr c = None")
     (simp_all add: setupNamespaceClosureContext_run_def blackholeRoute_def)

lemma run_ipv4_route_fails:
  fixes c :: "'w setupNamespaceClosureContext" and ns :: 'n
  assumes "LinkByName (setupNamespaceClosureContext.netLink c)
             (setupNamespaceClosureContext.deviceName c) w0 = (Inr eniLink, w1)"
    and "LinkSetName (setupNamespaceClosureContext.netLink c) eniLink (ifName c) w1 = (None, w2)"
    and "AddrAdd (setupNamespaceClosureContext.netLink c) eniLink
           (setupNamespaceClosureContext.ipv4Addr c) w2 = (None, w3)"
    and "if setupNamespaceClosureContext.ipv6Addr c \<noteq> None
         then AddrAdd (setupNamespaceClosureContext.netLink c) eniLink
                (setupNamespaceClosureContext.ipv6Addr c) w3 = (None, w4)
         else w4 = w3"
    and "LinkSetUp (setupNamespaceClosureContext.netLink c) eniLink w4 = (None, w5)"
    and "net_ParseCIDR instanceMetadataEndpoint = Inr (ip, imdsNetwork)"
    and "if blockIMDS c
         then RouteAdd (setupNamespaceClosureContext.netLink c) (blackholeRoute imdsNetwork) w5
                = (None, w6)
         else w6 = w5"
    and "RouteAdd (setupNamespaceClosureContext.netLink c) (ipv4GatewayRoute c) w6
           = (Some err, w7)"
  shows "setupNamespaceClosureContext_run net_ParseCIDR c ns w0 =
           (Some (errors_Wrap err
              ''setupNamespaceClosure engine: unable to add the route for the ipv4 gateway''), w7)"
  using assms
  by (cases "setupNamespaceClosureContext.ipv6Addr c = None"; cases "blockIMDS c")
     (simp_all add: setupNamespaceClosureContext_run_def blackholeRoute_def ipv4GatewayRoute_def)

lemma run_ipv6_route_result:
  fixes c :: "'w setupNamespaceClosureContext" and ns :: 'n
  assumes "LinkByName (setupNamespaceClosureContext.netLink c)
             (setupNamespaceClosureContext.deviceName c) w0 = (Inr eniLink, w1)"
    and "LinkSetName (setupNamespaceClosureContext.netLink c) eniLink (ifName c) w1 = (None, w2)"
    and "AddrAdd (setupNamespaceClosureContext.netLink c) eniLink
           (setupNamespaceClosureContext.ipv4Addr c) w2 = (None, w3)"
    and "if setupNamespaceClosureContext.ipv6Addr c \<noteq> None
         then AddrAdd (setupNamespaceClosureContext.netLink c) eniLink
                (setupNamespaceClosureContext.ipv6Addr c) w3 = (None, w4)
         else w4 = w3"
    and "LinkSetUp (setupNamespaceClosureContext.netLink c) eniLink w4 = (None, w5)"
    and "net_ParseCIDR instanceMetadataEndpoint = Inr (ip, imdsNetwork)"
    and "if blockIMDS c
         then RouteAdd (setupNamespaceClosureContext.netLink c) (blackholeRoute imdsNetwork) w5
                = (None, w6)
         else w6 = w5"
    and "RouteAdd (setupNamespaceClosureContext.netLink c) (ipv4GatewayRoute c) w6 = (None, w7)"
    and "setupNamespaceClosureContext.ipv6Addr c \<noteq> None"
    and "RouteAdd (setupNamespaceClosureContext.netLink c) (ipv6GatewayRoute c eniLink) w7
           = (r, w8)"
  shows "setupNamespaceClosureContext_run net_ParseCIDR c ns w0 =
           (case r of
              None \<Rightarrow> None
            | Some err \<Rightarrow>
                if isRouteExistsError err then None
                else Some (errors_Wrap err
                  ''setupNamespaceClosure engine: unable to add the route for the ipv6 gateway''),
            w8)"
  using assms
  by (cases "blockIMDS c")
     (simp_all add: setupNamespaceClosureContext_run_def blackholeRoute_def ipv4GatewayRoute_def
        ipv6GatewayRoute_def split: option.splits)

lemma isRouteExistsError_iff: "isRouteExistsError err = (err = Errno EEXIST)"
  by (cases err) simp_all

section \<open>Which route-exists errors the static-address setup tolerates\<close>

text \<open>
  Claim C1. Let the run of the static-address setup closure get as far as the routes: the
  device is resolved, renamed, given its addresses and brought up. If the blackhole route
  add (made when the IMDS-block flag is set) returns EEXIST, the run returns that error
  wrapped as the failure to block instance metadata. If the blackhole step is passed and
  the IPv4 default-gateway route add returns EEXIST, the run returns that error wrapped as
  the failure of the IPv4 gateway route. If both are passed, IPv6 is configured and the
  IPv6 default-gateway route add returns EEXIST, the run returns nil.
\<close>

theorem route_exists_tolerated_only_for_ipv6_gateway:
  fixes c :: "'w setupNamespaceClosureContext" and ns :: 'n
  assumes "LinkByName (setupNamespaceClosureContext.netLink c)
             (setupNamespaceClosureContext.deviceName c) w0 = (Inr eniLink, w1)"
    and "LinkSetName (setupNamespaceClosureContext.netLink c) eniLink (ifName c) w1 = (None, w2)"
    and "AddrAdd (setupNamespaceClosureContext.netLink c) eniLink
           (setupNamespaceClosureContext.ipv4Addr c) w2 = (None, w3)"
    and "if setupNamespaceClosureContext.ipv6Addr c \<noteq> None
         then AddrAdd (setupNamespaceClosureContext.netLink c) eniLink
                (setupNamespaceClosureContext.ipv6Addr c) w3 = (None, w4)
         else w4 = w3"
    and "LinkSetUp (setupNamespaceClosureContext.netLink c) eniLink w4 = (None, w5)"
    and "net_ParseCIDR instanceMetadataEndpoint = Inr (ip, imdsNetwork)"
  shows
    "(blockIMDS c \<longrightarrow>
      RouteAdd (setupNamespaceClosureContext.netLink c) (blackholeRoute imdsNetwork) w5
        = (Some (Errno EEXIST), w6) \<longrightarrow>
      setupNamespaceClosureContext_run net_ParseCIDR c ns w0 =
        (Some (errors_Wrap (Errno EEXIST)
           ''setupNamespaceClosure engine: unable to add route to block instance metadata''), w6)) \<and>
     ((if blockIMDS c
       then RouteAdd (setupNamespaceClosureContext.netLink c) (blackholeRoute imdsNetwork) w5
              = (None, w6')
       else w6' = w5) \<longrightarrow>
      RouteAdd (setupNamespaceClosureContext.netLink c) (ipv4GatewayRoute c) w6'
        = (Some (Errno EEXIST), w7) \<longrightarrow>
      setupNamespaceClosureContext_run net_ParseCIDR c ns w0 =
        (Some (errors_Wrap (Errno EEXIST)
           ''setupNamespaceClosure engine: unable to add the route for the ipv4 gateway''), w7)) \<and>
     ((if blockIMDS c
       then RouteAdd (setupNamespaceClosureContext.netLink c) (blackholeRoute imdsNetwork) w5
              = (None, w6'')
       else w6'' = w5) \<longrightarrow>
      RouteAdd (setupNamespaceClosureContext.netLink c) (ipv4GatewayRoute c) w6'' = (None, w7') \<longrightarrow>
      setupNamespaceClosureContext.ipv6Addr c \<noteq> None \<longrightarrow>
      RouteAdd (setupNamespaceClosureContext.netLink c) (ipv6GatewayRoute c eniLink) w7'
        = (Some (Errno EEXIST), w8) \<longrightarrow>
      setupNamespaceClosureContext_run net_ParseCIDR c ns w0 = (None, w8))"
proof (intro conjI impI)
  assume "blockIMDS c"
    and "RouteAdd (setupNamespaceClosureContext.netLink c) (blackholeRoute imdsNetwork) w5
           = (Some (Errno EEXIST), w6)"
  with assms show "setupNamespaceClosureContext_run net_ParseCIDR c ns w0 =
    (Some (errors_Wrap (Errno EEXIST)
       ''setupNamespaceClosure engine: unable to add route to block instance metadata''), w6)"
    by (rule run_blackhole_fails)
next
  assume "if blockIMDS c
       then RouteAdd (setupNamespaceClosureContext.netLink c) (blackholeRoute imdsNetwork) w5
              = (None, w6')
       else w6' = w5"
    and "RouteAdd (setupNamespaceClosureContext.netLink c) (ipv4GatewayRoute c) w6'
           = (Some (Errno EEXIST), w7)"
  with assms show "setupNamespaceClosureContext_run net_ParseCIDR c ns w0 =
    (Some (errors_Wrap (Errno EEXIST)
       ''setupNamespaceClosure engine: unable to add the route for the ipv4 gateway''), w7)"
    by (rule run_ipv4_route_fails)
next
  assume "if blockIMDS c
       then RouteAdd (setupNamespaceClosureContext.netLink c) (blackholeRoute imdsNetwork) w5
              = (None, w6'')
       else w6'' = w5"
    and "RouteAdd (setupNamespaceClosureContext.netLink c) (ipv4GatewayRoute c) w6'' = (None, w7')"
    and "setupNamespaceClosureContext.ipv6Addr c \<noteq> None"
    and "RouteAdd (setupNamespaceClosureContext.netLink c) (ipv6GatewayRoute c eniLink) w7'
           = (Some (Errno EEXIST), w8)"
  with assms have "setupNamespaceClosureContext_run net_ParseCIDR c ns w0 =
           (case Some (Errno EEXIST) of
              None \<Rightarrow> None
            | Some err \<Rightarrow>
                if isRouteExistsError err then None
                else Some (errors_Wrap err
                  ''setupNamespaceClosure engine: unable to add the route for the ipv6 gateway''),
            w8)"
    by (rule run_ipv6_route_result)
  then show "setupNamespaceClosureContext_run net_ParseCIDR c ns w0 = (None, w8)"
    by simp
qed

lemmas mock_simps =
  dualStackContext_def mockNetLink_def failRoute_def isBlackhole_def isLinkScoped_def
  isPlainGateway_def blackholeRoute_def ipv4GatewayRoute_def ipv6GatewayRoute_def
  Route_zero_def RTN_BLACKHOLE_def eni1_def mockParseCIDR_def instanceMetadataEndpoint_def
  imdsNet_def

text \<open>
  A mocked kernel whose route-add primitive answers EEXIST for one kind of route: the
  blackhole route, the plain gateway route, the link-scoped gateway route.
\<close>

theorem route_exists_tolerated_only_for_ipv6_gateway_witness:
  "setupNamespaceClosureContext_run mockParseCIDR
     (dualStackContext True (failRoute isBlackhole (Errno EEXIST))) () () =
     (Some (errors_Wrap (Errno EEXIST)
        ''setupNamespaceClosure engine: unable to add route to block instance metadata''), ()) \<and>
   setupNamespaceClosureContext_run mockParseCIDR
     (dualStackContext True (failRoute isPlainGateway (Errno EEXIST))) () () =
     (Some (errors_Wrap (Errno EEXIST)
        ''setupNamespaceClosure engine: unable to add the route for the ipv4 gateway''), ()) \<and>
   setupNamespaceClosureContext_run mockParseCIDR
     (dualStackContext True (failRoute isLinkScoped (Errno EEXIST))) () () = (None, ())"
proof -
  note claim = route_exists_tolerated_only_for_ipv6_gateway
  have cidr: "mockParseCIDR instanceMetadataEndpoint = Inr ([169, 254, 169, 254], imdsNet)"
    by (simp add: mock_simps)
  let ?A = "dualStackContext True (failRoute isBlackhole (Errno EEXIST))"
  have "setupNamespaceClosureContext_run mockParseCIDR ?A () () =
     (Some (errors_Wrap (Errno EEXIST)
        ''setupNamespaceClosure engine: unable to add route to block instance metadata''), ())"
    by (rule claim [where c = ?A and eniLink = eni1 and ?w0.0 = "()" and ?w1.0 = "()"
          and ?w2.0 = "()" and ?w3.0 = "()" and ?w4.0 = "()" and ?w5.0 = "()" and ?w6.0 = "()"
          and net_ParseCIDR = mockParseCIDR, OF _ _ _ _ _ cidr, THEN conjunct1, rule_format])
       (simp_all add: mock_simps)
  moreover
  let ?B = "dualStackContext True (failRoute isPlainGateway (Errno EEXIST))"
  have "setupNamespaceClosureContext_run mockParseCIDR ?B () () =
     (Some (errors_Wrap (Errno EEXIST)
        ''setupNamespaceClosure engine: unable to add the route for the ipv4 gateway''), ())"
    by (rule claim [where c = ?B and eniLink = eni1 and ?w0.0 = "()" and ?w1.0 = "()"
          and ?w2.0 = "()" and ?w3.0 = "()" and ?w4.0 = "()" and ?w5.0 = "()" and w6' = "()"
          and ?w7.0 = "()"
          and net_ParseCIDR = mockParseCIDR, OF _ _ _ _ _ cidr, THEN conjunct2, THEN conjunct1,
          rule_format])
       (simp_all add: mock_simps)
  moreover
  let ?C = "dualStackContext True (failRoute isLinkScoped (Errno EEXIST))"
  have "setupNamespaceClosureContext_run mockParseCIDR ?C () () = (None, ())"
    by (rule claim [where c = ?C and eniLink = eni1 and ?w0.0 = "()" and ?w1.0 = "()"
          and ?w2.0 = "()" and ?w3.0 = "()" and ?w4.0 = "()" and ?w5.0 = "()" and w6'' = "()"
          and w7' = "()" and ?w8.0 = "()"
          and net_ParseCIDR = mockParseCIDR, OF _ _ _ _ _ cidr, THEN conjunct2, THEN conjunct2,
          rule_format])
       (simp_all add: mock_simps)
  ultimately show ?thesis by blast
qed

text \<open>
  Claim C9. \<^verbatim>\<open>isRouteExistsError\<close> holds of exactly one error value, the raw errno EEXIST.
  It does not hold of an EEXIST wrapped by \<^verbatim>\<open>errors.Wrap\<close>, nor of one inside a path
  error. So when the run of the static-address setup has passed every step before the
  IPv6 gateway route, IPv6 is configured, and the IPv6 gateway route add returns any error
  other than the raw EEXIST, the run returns that error wrapped as the failure of the IPv6
  gateway route.
\<close>

theorem isRouteExistsError_raw_errno_only:
  fixes c :: "'w setupNamespaceClosureContext" and ns :: 'n
  shows
    "isRouteExistsError err = (err = Errno EEXIST) \<and>
     \<not> isRouteExistsError (errors_Wrap (Errno EEXIST) message) \<and>
     \<not> isRouteExistsError (PathError op' path (Errno EEXIST)) \<and>
     (LinkByName (setupNamespaceClosureContext.netLink c)
        (setupNamespaceClosureContext.deviceName c) w0 = (Inr eniLink, w1) \<longrightarrow>
      LinkSetName (setupNamespaceClosureContext.netLink c) eniLink (ifName c) w1 = (None, w2) \<longrightarrow>
      AddrAdd (setupNamespaceClosureContext.netLink c) eniLink
        (setupNamespaceClosureContext.ipv4Addr c) w2 = (None, w3) \<longrightarrow>
      setupNamespaceClosureContext.ipv6Addr c \<noteq> None \<longrightarrow>
      AddrAdd (setupNamespaceClosureContext.netLink c) eniLink
        (setupNamespaceClosureContext.ipv6Addr c) w3 = (None, w4) \<longrightarrow>
      LinkSetUp (setupNamespaceClosureContext.netLink c) eniLink w4 = (None, w5) \<longrightarrow>
      net_ParseCIDR instanceMetadataEndpoint = Inr (ip, imdsNetwork) \<longrightarrow>
      (if blockIMDS c
       then RouteAdd (setupNamespaceClosureContext.netLink c) (blackholeRoute imdsNetwork) w5
              = (None, w6)
       else w6 = w5) \<longrightarrow>
      RouteAdd (setupNamespaceClosureContext.netLink c) (ipv4GatewayRoute c) w6 = (None, w7) \<longrightarrow>
      RouteAdd (setupNamespaceClosureContext.netLink c) (ipv6GatewayRoute c eniLink) w7
        = (Some routeErr, w8) \<longrightarrow>
      routeErr \<noteq> Errno EEXIST \<longrightarrow>
      setupNamespaceClosureContext_run net_ParseCIDR c ns w0 =
        (Some (errors_Wrap routeErr
           ''setupNamespaceClosure engine: unable to add the route for the ipv6 gateway''), w8))"
proof (intro conjI impI)
  show "isRouteExistsError err = (err = Errno EEXIST)"
    by (rule isRouteExistsError_iff)
  show "\<not> isRouteExistsError (errors_Wrap (Errno EEXIST) message)"
    by (simp add: errors_Wrap_def)
  show "\<not> isRouteExistsError (PathError op' path (Errno EEXIST))"
    by simp
next
  assume a: "LinkByName (setupNamespaceClosureContext.netLink c)
        (setupNamespaceClosureContext.deviceName c) w0 = (Inr eniLink, w1)"
    "LinkSetName (setupNamespaceClosureContext.netLink c) eniLink (ifName c) w1 = (None, w2)"
    "AddrAdd (setupNamespaceClosureContext.netLink c) eniLink
        (setupNamespaceClosureContext.ipv4Addr c) w2 = (None, w3)"
    and v6: "setupNamespaceClosureContext.ipv6Addr c \<noteq> None"
    and a6: "AddrAdd (setupNamespaceClosureContext.netLink c) eniLink
        (setupNamespaceClosureContext.ipv6Addr c) w3 = (None, w4)"
    and b: "LinkSetUp (setupNamespaceClosureContext.netLink c) eniLink w4 = (None, w5)"
      "net_ParseCIDR instanceMetadataEndpoint = Inr (ip, imdsNetwork)"
      "if blockIMDS c
       then RouteAdd (setupNamespaceClosureContext.netLink c) (blackholeRoute imdsNetwork) w5
              = (None, w6)
       else w6 = w5"
      "RouteAdd (setupNamespaceClosureContext.netLink c) (ipv4GatewayRoute c) w6 = (None, w7)"
    and r: "RouteAdd (setupNamespaceClosureContext.netLink c) (ipv6GatewayRoute c eniLink) w7
        = (Some routeErr, w8)"
    and ne: "routeErr \<noteq> Errno EEXIST"
  from v6 a6 have a6': "if setupNamespaceClosureContext.ipv6Addr c \<noteq> None
         then AddrAdd (setupNamespaceClosureContext.netLink c) eniLink
                (setupNamespaceClosureContext.ipv6Addr c) w3 = (None, w4)
         else w4 = w3"
    by simp
  have "setupNamespaceClosureContext_run net_ParseCIDR c ns w0 =
           (case Some routeErr of
              None \<Rightarrow> None
            | Some err \<Rightarrow>
                if isRouteExistsError err then None
                else Some (errors_Wrap err
                  ''setupNamespaceClosure engine: unable to add the route for the ipv6 gateway''),
            w8)"
    using a a6' b v6 r by (rule run_ipv6_route_result)
  with ne show "setupNamespaceClosureContext_run net_ParseCIDR c ns w0 =
        (Some (errors_Wrap routeErr
           ''setupNamespaceClosure engine: unable to add the route for the ipv6 gateway''), w8)"
    by (simp add: isRouteExistsError_iff)
qed

text \<open>
  The mocked route-add primitive answers the link-scoped route with an EEXIST that
  \<^verbatim>\<open>errors.Wrap\<close> has wrapped: the run fails.
\<close>

theorem isRouteExistsError_raw_errno_only_witness:
  "errors_Wrap (Errno EEXIST) ''netlink'' \<noteq> Errno EEXIST \<and>
   setupNamespaceClosureContext_run mockParseCIDR
     (dualStackContext False (failRoute isLinkScoped (errors_Wrap (Errno EEXIST) ''netlink'')))
     () () =
     (Some (errors_Wrap (errors_Wrap (Errno EEXIST) ''netlink'')
        ''setupNamespaceClosure engine: unable to add the route for the ipv6 gateway''), ())"
proof -
  let ?e = "errors_Wrap (Errno EEXIST) ''netlink''"
  let ?C = "dualStackContext False (failRoute isLinkScoped ?e)"
  have ne: "?e \<noteq> Errno EEXIST"
    by (simp add: errors_Wrap_def)
  have cidr: "mockParseCIDR instanceMetadataEndpoint = Inr ([169, 254, 169, 254], imdsNet)"
    by (simp add: mock_simps)
  have "setupNamespaceClosureContext_run mockParseCIDR ?C () () =
     (Some (errors_Wrap ?e
        ''setupNamespaceClosure engine: unable to add the route for the ipv6 gateway''), ())"
    by (rule isRouteExistsError_raw_errno_only [where c = ?C and eniLink = eni1
          and ?w0.0 = "()" and ?w1.0 = "()" and ?w2.0 = "()" and ?w3.0 = "()" and ?w4.0 = "()"
          and ?w5.0 = "()" and ?w6.0 = "()" and ?w7.0 = "()" and ?w8.0 = "()"
          and net_ParseCIDR = mockParseCIDR and ip = "[169, 254, 169, 254]"
          and imdsNetwork = imdsNet and routeErr = ?e,
          THEN conjunct2, THEN conjunct2, THEN conjunct2, rule_format])
       (simp_all add: mock_simps errors_Wrap_def)
  with ne show ?thesis by blast
qed

end
